theory Spec2Isabelle
  imports Main
begin

section \<open>Data model\<close>

text \<open>
  The service \<open>TeamService\<close> (team.service.ts) works on two tables, teams and users,
  through two repositories. A row of each table is a record; the store is the pair of
  tables, passed through every operation and returned updated. Identifiers are strings,
  as in the source (\<open>findOne(id: string)\<close>). Strings are byte lists: the source's
  messages are written out as their UTF-8 bytes.

  Only the columns the service reads or writes are modelled: a team's id, name and
  description, a user's id, role and team reference (the foreign key behind the
  \<open>team\<close> relation; \<open>None\<close> is \<open>null\<close>).
\<close>

type_synonym tid = string
type_synonym uid = string

datatype UserRole = EXTERNAL_SUPER_ADMIN | EXTERNAL_MEMBER | OTHER_ROLE string

record Team =
  team_id :: tid
  team_name :: string
  team_description :: "string option"

record User =
  user_id :: uid
  role :: UserRole
  team :: "tid option"

record store =
  teams :: "Team list"
  users :: "User list"

record CreateTeamDTO =
  name :: string
  description :: "string option"
  super_admin_user_id :: uid
  members :: "uid list"

record UpdateTeamDTO =
  upd_id :: tid
  upd_name :: "string option"
  upd_description :: "string option"

subsection \<open>Errors\<close>

text \<open>
  Every \<open>throw new RpcException(createGRPCErrorResponse(code, message))\<close> of the source
  is a value \<open>Inl (code, message)\<close>.
\<close>

datatype error_code =
  TEAM_ALREADY_EXISTS | USER_NOT_FOUND | CREATE_TEAM_FAILURE | TEAM_NOT_FOUND | TEAM_NAME_EXISTS

type_synonym RpcException = "error_code \<times> string"

text \<open>
  Modelled from the spec: \<open>createGRPCErrorResponse\<close> lives in libs/response.lib, which is
  not among the sources; the spec describes its result as the structured pair
  (code, humanMessage).
\<close>

definition createGRPCErrorResponse :: "error_code \<Rightarrow> string \<Rightarrow> RpcException" where
  "createGRPCErrorResponse code msg = (code, msg)"

text \<open>The message texts of the source, as UTF-8 bytes.\<close>

definition msg_team_exists :: "string \<Rightarrow> string" where
  \<comment> \<open>line 29, the template around \<open>dto.name\<close>\<close>
  "msg_team_exists n =
     [CHR 0xE5, CHR 0x9B, CHR 0xA2, CHR 0xE9, CHR 0x98, CHR 0x9F, CHR 0xE5, CHR 0x90, CHR 0x8D,
      CHR 0xE7, CHR 0xA7, CHR 0xB0, CHR 0xE3, CHR 0x80, CHR 0x8C, CHR 0x20]
     @ n @
     [CHR 0x20, CHR 0xE3, CHR 0x80, CHR 0x8D, CHR 0xE5, CHR 0xB7, CHR 0xB2, CHR 0xE5, CHR 0xAD,
      CHR 0x98, CHR 0xE5, CHR 0x9C, CHR 0xA8]"

definition msg_user_not_found :: string where
  \<comment> \<open>line 39\<close>
  "msg_user_not_found =
     [CHR 0xE7, CHR 0x94, CHR 0xA8, CHR 0xE6, CHR 0x88, CHR 0xB7, CHR 0xE4, CHR 0xB8, CHR 0x8D,
      CHR 0xE5, CHR 0xAD, CHR 0x98, CHR 0xE5, CHR 0x9C, CHR 0xA8]"

definition msg_members_not_found :: string where
  \<comment> \<open>line 52\<close>
  "msg_members_not_found =
     [CHR 0xE4, CHR 0xB8, CHR 0x80, CHR 0xE4, CHR 0xB8, CHR 0xAA, CHR 0xE6, CHR 0x88, CHR 0x96,
      CHR 0xE5, CHR 0xA4, CHR 0x9A, CHR 0xE4, CHR 0xB8, CHR 0xAA, CHR 0xE5, CHR 0x9B, CHR 0xA2,
      CHR 0xE9, CHR 0x98, CHR 0x9F, CHR 0xE6, CHR 0x88, CHR 0x90, CHR 0xE5, CHR 0x91, CHR 0x98,
      CHR 0xE4, CHR 0xB8, CHR 0x8D, CHR 0xE5, CHR 0xAD, CHR 0x98, CHR 0xE5, CHR 0x9C, CHR 0xA8]"

definition msg_created :: string where
  \<comment> \<open>line 90\<close>
  "msg_created =
     [CHR 0xE5, CHR 0x9B, CHR 0xA2, CHR 0xE9, CHR 0x98, CHR 0x9F, CHR 0xE5, CHR 0x88, CHR 0x9B,
      CHR 0xE5, CHR 0xBB, CHR 0xBA, CHR 0xE6, CHR 0x88, CHR 0x90, CHR 0xE5, CHR 0x8A, CHR 0x9F]"

definition msg_create_failed :: string where
  \<comment> \<open>line 99, the fallback text\<close>
  "msg_create_failed =
     [CHR 0xE5, CHR 0x88, CHR 0x9B, CHR 0xE5, CHR 0xBB, CHR 0xBA, CHR 0xE5, CHR 0x9B, CHR 0xA2,
      CHR 0xE9, CHR 0x98, CHR 0x9F, CHR 0xE5, CHR 0xA4, CHR 0xB1, CHR 0xE8, CHR 0xB4, CHR 0xA5]"

definition msg_team_not_found :: string where
  \<comment> \<open>lines 119 and 131\<close>
  "msg_team_not_found =
     [CHR 0xE5, CHR 0x9B, CHR 0xA2, CHR 0xE9, CHR 0x98, CHR 0x9F, CHR 0xE6, CHR 0x9C, CHR 0xAA,
      CHR 0xE6, CHR 0x89, CHR 0xBE, CHR 0xE5, CHR 0x88, CHR 0xB0]"

definition msg_name_exists :: string where
  \<comment> \<open>line 142\<close>
  "msg_name_exists =
     [CHR 0xE5, CHR 0x9B, CHR 0xA2, CHR 0xE9, CHR 0x98, CHR 0x9F, CHR 0xE5, CHR 0x90, CHR 0x8D,
      CHR 0xE5, CHR 0xB7, CHR 0xB2, CHR 0xE5, CHR 0xAD, CHR 0x98, CHR 0xE5, CHR 0x9C, CHR 0xA8]"

section \<open>The persistence gateway\<close>

text \<open>
  The repositories are the ORM's, not the repository's own code. Their operations are
  modelled from the way the service calls them and from the collaborator contract of the
  spec (section 6): point lookups return the first matching row or nothing, the batch
  lookup returns the rows whose id is in the list (only the matches), \<open>save\<close> of a loaded
  row replaces the row with that id, \<open>remove\<close> deletes the row with that id.
\<close>

definition findTeamByName :: "string \<Rightarrow> store \<Rightarrow> Team option" where
  \<comment> \<open>\<open>teamRepository.findOne({ where: { name } })\<close>\<close>
  "findTeamByName n s = List.find (\<lambda>t. team_name t = n) (teams s)"

definition findTeamById :: "tid \<Rightarrow> store \<Rightarrow> Team option" where
  \<comment> \<open>\<open>teamRepository.findOne({ where: { id } })\<close>\<close>
  "findTeamById i s = List.find (\<lambda>t. team_id t = i) (teams s)"

definition findUserById :: "uid \<Rightarrow> store \<Rightarrow> User option" where
  \<comment> \<open>\<open>userRepository.findOne({ where: { id } })\<close>\<close>
  "findUserById i s = List.find (\<lambda>u. user_id u = i) (users s)"

definition findUsersByIds :: "uid list \<Rightarrow> store \<Rightarrow> User list" where
  \<comment> \<open>\<open>userRepository.find({ where: { id: In(ids) } })\<close>\<close>
  "findUsersByIds ids s = filter (\<lambda>u. user_id u \<in> set ids) (users s)"

definition membersOf :: "tid \<Rightarrow> store \<Rightarrow> User list" where
  \<comment> \<open>the \<open>members\<close> relation of a team: the users whose team reference is the team\<close>
  "membersOf i s = filter (\<lambda>u. team u = Some i) (users s)"

definition findTeamWithMembers :: "tid \<Rightarrow> store \<Rightarrow> (Team \<times> User list) option" where
  \<comment> \<open>\<open>teamRepository.findOne({ where: { id }, relations: ['members'] })\<close>\<close>
  "findTeamWithMembers i s =
     (case findTeamById i s of
        None \<Rightarrow> None
      | Some t \<Rightarrow> Some (t, membersOf (team_id t) s))"

definition saveTeam :: "tid \<Rightarrow> string \<Rightarrow> string option \<Rightarrow> store \<Rightarrow> Team \<times> store" where
  \<comment> \<open>\<open>teamRepository.save(teamRepository.create({ name, description }))\<close>: the storage
      layer assigns the id (first argument) and inserts the row\<close>
  "saveTeam new_id n d s =
     (let t = \<lparr>team_id = new_id, team_name = n, team_description = d\<rparr>
      in (t, s\<lparr>teams := teams s @ [t]\<rparr>))"

definition saveUser :: "User \<Rightarrow> store \<Rightarrow> store" where
  \<comment> \<open>\<open>userRepository.save(user)\<close>: update the row with the user's id, insert otherwise\<close>
  "saveUser u s =
     (if \<exists>r \<in> set (users s). user_id r = user_id u
      then s\<lparr>users := map (\<lambda>r. if user_id r = user_id u then u else r) (users s)\<rparr>
      else s\<lparr>users := users s @ [u]\<rparr>)"

definition saveUsers :: "User list \<Rightarrow> store \<Rightarrow> store" where
  \<comment> \<open>\<open>userRepository.save(users[])\<close>: each entity of the batch in turn\<close>
  "saveUsers us s = fold saveUser us s"

definition removeTeam :: "Team \<Rightarrow> store \<Rightarrow> store" where
  \<comment> \<open>\<open>teamRepository.remove(team)\<close>\<close>
  "removeTeam t s = s\<lparr>teams := filter (\<lambda>r. team_id r \<noteq> team_id t) (teams s)\<rparr>"

subsection \<open>Failures and the transaction\<close>

text \<open>
  A persistence step of the creation transaction may throw. Which step throws, and with
  which message, is the environment's choice: \<open>failure env step = Some m\<close> says that the
  step throws an \<open>Error\<close> whose message is \<open>m\<close>. The environment also holds the id the
  storage layer gives the next team row. The lookups before the transaction and the
  writes of \<open>deleteTeam\<close> are modelled without failures.
\<close>

datatype tx_step = SAVE_TEAM | SAVE_ADMIN | SAVE_MEMBERS | READ_BACK

record gateway_env =
  next_team_id :: tid
  failure :: "tx_step \<Rightarrow> string option"

text \<open>
  \<open>manager.transaction\<close> is the ORM's. It opens a transaction, hands a transactional
  entity manager to its callback, commits when the callback returns and, when the callback
  throws, rolls back what was written through that manager and throws the error again.

  The callback of line 59 takes no argument. Its writes (lines 66, 71 and 79) go through
  the injected repositories \<open>this.teamRepository\<close> and \<open>this.userRepository\<close>, which are not
  on the transaction: each is in the store as soon as it is made. Nothing is written
  through the transactional manager, so the rollback has nothing to undo, and after a
  throw the store is the one the callback left. The contract the spec gives
  \<open>runInTransaction\<close> (section 6), "rolling back all writes performed by work if it
  raises", is what the comments of lines 58 and 95 announce, not what this call does.
\<close>

definition runInTransaction ::
  "(store \<Rightarrow> (string + 'a) \<times> store) \<Rightarrow> store \<Rightarrow> (string + 'a) \<times> store" where
  \<comment> \<open>\<open>this.userRepository.manager.transaction(async () => { ... })\<close>, for a callback that
      writes through the injected repositories only\<close>
  "runInTransaction work s =
     (case work s of
        (Inl e, s') \<Rightarrow> (Inl e, s')
      | (Inr r, s') \<Rightarrow> (Inr r, s'))"

section \<open>TeamService\<close>

subsection \<open>createTeam\<close>

record create_result =
  success :: bool
  message :: string
  data :: "(Team \<times> User list) option"

definition createTeam_work ::
  "gateway_env \<Rightarrow> CreateTeamDTO \<Rightarrow> User \<Rightarrow> User list \<Rightarrow> store \<Rightarrow> (string + create_result) \<times> store" where
  \<comment> \<open>the callback of lines 59 to 93; \<open>superAdmin\<close> and \<open>mems\<close> are the objects loaded
      before the transaction\<close>
  "createTeam_work env dto superAdmin mems s =
     (case failure env SAVE_TEAM of
        Some e \<Rightarrow> (Inl e, s)
      | None \<Rightarrow>
          let (savedTeam, s1) = saveTeam (next_team_id env) (name dto) (description dto) s;
              superAdmin' = superAdmin\<lparr>role := EXTERNAL_SUPER_ADMIN, team := Some (team_id savedTeam)\<rparr>
          in
          (case failure env SAVE_ADMIN of
             Some e \<Rightarrow> (Inl e, s1)
           | None \<Rightarrow>
               let s2 = saveUser superAdmin' s1;
                   mems' = map (\<lambda>m. m\<lparr>team := Some (team_id savedTeam), role := EXTERNAL_MEMBER\<rparr>) mems
               in
               (case (if length mems > 0 then failure env SAVE_MEMBERS else None) of
                  Some e \<Rightarrow> (Inl e, s2)
                | None \<Rightarrow>
                    let s3 = (if length mems > 0 then saveUsers mems' s2 else s2) in
                    (case failure env READ_BACK of
                       Some e \<Rightarrow> (Inl e, s3)
                     | None \<Rightarrow>
                         let teamWithMembers = findTeamWithMembers (team_id savedTeam) s3
                         in (Inr \<lparr>success = True, message = msg_created, data = teamWithMembers\<rparr>,
                             s3)))))"

definition tx_steps :: "User list \<Rightarrow> tx_step list" where
  \<comment> \<open>the persistence steps of the callback in the order it makes them: lines 66, 71,
      79 (only under the guard of line 74) and 83\<close>
  "tx_steps mems =
     [SAVE_TEAM, SAVE_ADMIN] @ (if length mems > 0 then [SAVE_MEMBERS] else []) @ [READ_BACK]"

definition createTeam ::
  "gateway_env \<Rightarrow> CreateTeamDTO \<Rightarrow> store \<Rightarrow> (RpcException + create_result option) \<times> store" where
  \<comment> \<open>lines 21 to 103. The function has no \<open>return\<close>: the value of the awaited
      transaction is dropped, and a call that does not throw resolves to \<open>undefined\<close>,
      here \<open>Inr None\<close>.\<close>
  "createTeam env dto s =
     (case findTeamByName (name dto) s of
        Some existingTeam \<Rightarrow>
          (Inl (createGRPCErrorResponse TEAM_ALREADY_EXISTS (msg_team_exists (name dto))), s)
      | None \<Rightarrow>
          (case findUserById (super_admin_user_id dto) s of
             None \<Rightarrow> (Inl (createGRPCErrorResponse USER_NOT_FOUND msg_user_not_found), s)
           | Some superAdmin \<Rightarrow>
               let mems = (if length (members dto) > 0 then findUsersByIds (members dto) s else [])
               in
               if length (members dto) > 0 \<and> length mems \<noteq> length (members dto)
               then (Inl (createGRPCErrorResponse USER_NOT_FOUND msg_members_not_found), s)
               else
                 (case runInTransaction (createTeam_work env dto superAdmin mems) s of
                    (Inl e, s') \<Rightarrow>
                      (Inl (createGRPCErrorResponse CREATE_TEAM_FAILURE
                              (if e \<noteq> [] then e else msg_create_failed)), s')
                  | (Inr r, s') \<Rightarrow> (Inr None, s'))))"

subsection \<open>findAll, findOne\<close>

definition findAll :: "store \<Rightarrow> (Team \<times> User list) list" where
  "findAll s = map (\<lambda>t. (t, membersOf (team_id t) s)) (teams s)"

definition findOne :: "tid \<Rightarrow> store \<Rightarrow> RpcException + (Team \<times> User list)" where
  "findOne i s =
     (case findTeamWithMembers i s of
        None \<Rightarrow> Inl (createGRPCErrorResponse TEAM_NOT_FOUND msg_team_not_found)
      | Some t \<Rightarrow> Inr t)"

subsection \<open>updateTeam\<close>

definition updateTeam_aggregate :: "UpdateTeamDTO \<Rightarrow> Team \<Rightarrow> Team" where
  \<comment> \<open>lines 148 and 149: the assignments to the fetched object; an empty string is falsy\<close>
  "updateTeam_aggregate dto t =
     (let t1 = (case upd_name dto of
                  Some n \<Rightarrow> if n \<noteq> [] then t\<lparr>team_name := n\<rparr> else t
                | None \<Rightarrow> t)
      in (case upd_description dto of
            Some d \<Rightarrow> t1\<lparr>team_description := Some d\<rparr>
          | None \<Rightarrow> t1))"

definition updateTeam :: "UpdateTeamDTO \<Rightarrow> store \<Rightarrow> (RpcException + unit) \<times> store" where
  \<comment> \<open>lines 126 to 150. The updated object is never saved and never returned.\<close>
  "updateTeam dto s =
     (case findTeamById (upd_id dto) s of
        None \<Rightarrow> (Inl (createGRPCErrorResponse TEAM_NOT_FOUND msg_team_not_found), s)
      | Some t \<Rightarrow>
          (case (case upd_name dto of
                   Some n \<Rightarrow> if n \<noteq> [] \<and> n \<noteq> team_name t then findTeamByName n s else None
                 | None \<Rightarrow> None) of
             Some existingTeam \<Rightarrow>
               (Inl (createGRPCErrorResponse TEAM_NAME_EXISTS msg_name_exists), s)
           | None \<Rightarrow>
               let t' = updateTeam_aggregate dto t
               in (Inr (), s)))"

subsection \<open>deleteTeam\<close>

definition deleteTeam :: "tid \<Rightarrow> store \<Rightarrow> (RpcException + unit) \<times> store" where
  \<comment> \<open>lines 152 to 163: one save per member, in sequence, then the removal\<close>
  "deleteTeam i s =
     (case findOne i s of
        Inl e \<Rightarrow> (Inl e, s)
      | Inr (t, ms) \<Rightarrow>
          let s1 = fold (\<lambda>member. saveUser (member\<lparr>team := None\<rparr>)) ms s
          in (Inr (), removeTeam t s1))"

section \<open>Example stores and requests\<close>

text \<open>
  Three users without a team, the store that holds them, the request that creates team
  Alpha with u1 as administrator and u2, u3 as members, and the store after that
  request. The remaining values are the inputs of the examples further down.
\<close>

definition ex_u1 :: User where "ex_u1 = \<lparr>user_id = ''u1'', role = OTHER_ROLE ''guest'', team = None\<rparr>"

definition ex_u2 :: User where "ex_u2 = \<lparr>user_id = ''u2'', role = OTHER_ROLE ''guest'', team = None\<rparr>"

definition ex_u3 :: User where "ex_u3 = \<lparr>user_id = ''u3'', role = OTHER_ROLE ''guest'', team = None\<rparr>"

definition ex_store :: store where
  "ex_store = \<lparr>teams = [], users = [ex_u1, ex_u2, ex_u3]\<rparr>"

definition ex_env :: gateway_env where
  "ex_env = \<lparr>next_team_id = ''t1'', failure = (\<lambda>st. None)\<rparr>"

definition ex_env2 :: gateway_env where
  "ex_env2 = \<lparr>next_team_id = ''t2'', failure = (\<lambda>st. None)\<rparr>"

definition ex_env_fail :: gateway_env where
  "ex_env_fail = \<lparr>next_team_id = ''t1'', failure = (\<lambda>st. if st = SAVE_ADMIN then Some [] else None)\<rparr>"

definition ex_env_down :: gateway_env where
  "ex_env_down = \<lparr>next_team_id = ''t1'',
                   failure = (\<lambda>st. if st = SAVE_MEMBERS then Some ''connection lost''
                                   else if st = READ_BACK then Some ''timeout'' else None)\<rparr>"

definition ex_dto :: CreateTeamDTO where
  "ex_dto = \<lparr>name = ''Alpha'', description = Some ''first team'', super_admin_user_id = ''u1'',
             members = [''u2'', ''u3'']\<rparr>"

definition ex_alpha :: Team where
  "ex_alpha = \<lparr>team_id = ''t1'', team_name = ''Alpha'', team_description = Some ''first team''\<rparr>"

definition ex_store_alpha :: store where
  "ex_store_alpha =
     \<lparr>teams = [ex_alpha],
      users = [\<lparr>user_id = ''u1'', role = EXTERNAL_SUPER_ADMIN, team = Some ''t1''\<rparr>,
               \<lparr>user_id = ''u2'', role = EXTERNAL_MEMBER, team = Some ''t1''\<rparr>,
               \<lparr>user_id = ''u3'', role = EXTERNAL_MEMBER, team = Some ''t1''\<rparr>]\<rparr>"

definition ex_dto_admin_member :: CreateTeamDTO where
  "ex_dto_admin_member = \<lparr>name = ''Alpha'', description = None, super_admin_user_id = ''u1'',
             members = [''u1'', ''u2'']\<rparr>"

definition ex_dto_again :: CreateTeamDTO where
  "ex_dto_again = \<lparr>name = ''Alpha'', description = None, super_admin_user_id = ''u2'',
             members = []\<rparr>"

definition ex_dto_ghost_admin :: CreateTeamDTO where
  "ex_dto_ghost_admin = \<lparr>name = ''Alpha'', description = None, super_admin_user_id = ''ghost'',
             members = []\<rparr>"

definition ex_dto_ghost_member :: CreateTeamDTO where
  "ex_dto_ghost_member = \<lparr>name = ''Beta'', description = None, super_admin_user_id = ''u1'',
             members = [''u2'', ''ghost'']\<rparr>"

definition ex_dto_ghost_admin_beta :: CreateTeamDTO where
  "ex_dto_ghost_admin_beta = \<lparr>name = ''Beta'', description = None,
             super_admin_user_id = ''ghost'', members = [''u2'']\<rparr>"

definition ex_dto_dup :: CreateTeamDTO where
  "ex_dto_dup = \<lparr>name = ''Alpha'', description = None, super_admin_user_id = ''u1'',
             members = [''u2'', ''u2'']\<rparr>"

definition ex_dto_dup_beta :: CreateTeamDTO where
  "ex_dto_dup_beta = \<lparr>name = ''Beta'', description = None, super_admin_user_id = ''u1'',
             members = [''u2'', ''u3'', ''u2'']\<rparr>"

definition ex_unnamed :: Team where
  "ex_unnamed = \<lparr>team_id = ''t2'', team_name = [], team_description = None\<rparr>"

definition ex_beta :: Team where
  "ex_beta = \<lparr>team_id = ''t3'', team_name = ''Beta'', team_description = None\<rparr>"

definition ex_store_teams :: store where
  "ex_store_teams = \<lparr>teams = [ex_alpha, ex_unnamed, ex_beta], users = users ex_store_alpha\<rparr>"

definition ex_upd_empty :: UpdateTeamDTO where
  "ex_upd_empty = \<lparr>upd_id = ''t1'', upd_name = Some [], upd_description = None\<rparr>"

definition ex_upd_beta :: UpdateTeamDTO where
  "ex_upd_beta = \<lparr>upd_id = ''t1'', upd_name = Some ''Beta'', upd_description = None\<rparr>"

definition ex_upd_gamma :: UpdateTeamDTO where
  "ex_upd_gamma = \<lparr>upd_id = ''t1'', upd_name = Some ''Gamma'', upd_description = Some ''renamed''\<rparr>"

definition ex_upd_unknown :: UpdateTeamDTO where
  "ex_upd_unknown = \<lparr>upd_id = ''t9'', upd_name = Some ''Gamma'', upd_description = None\<rparr>"

definition ex_store_detached :: store where
  "ex_store_detached =
     \<lparr>teams = [],
      users = [\<lparr>user_id = ''u1'', role = EXTERNAL_SUPER_ADMIN, team = None\<rparr>,
               \<lparr>user_id = ''u2'', role = EXTERNAL_MEMBER, team = None\<rparr>,
               \<lparr>user_id = ''u3'', role = EXTERNAL_MEMBER, team = None\<rparr>]\<rparr>"

lemmas ex_defs = ex_u1_def ex_u2_def ex_u3_def ex_store_def ex_env_def ex_dto_def ex_alpha_def
  ex_store_alpha_def

lemmas ex_upd_defs = ex_unnamed_def ex_beta_def ex_store_teams_def ex_upd_empty_def ex_upd_beta_def
  ex_upd_gamma_def ex_upd_unknown_def

lemmas svc_defs = createTeam_def createTeam_work_def runInTransaction_def saveTeam_def saveUser_def
  saveUsers_def findTeamByName_def findTeamById_def findUserById_def findUsersByIds_def
  membersOf_def findTeamWithMembers_def createGRPCErrorResponse_def findOne_def removeTeam_def
  updateTeam_def deleteTeam_def

section \<open>Lemmas about the gateway\<close>

lemma find_map_keep:
  "(\<And>r. P (f r) = P r) \<Longrightarrow> (\<And>r. P r \<Longrightarrow> f r = g r) \<Longrightarrow>
   List.find P (map f xs) = map_option g (List.find P xs)"
  by (induction xs) auto

lemma find_snoc:
  "List.find P (xs @ [y]) = (case List.find P xs of Some x \<Rightarrow> Some x | None \<Rightarrow> if P y then Some y else None)"
  by (induction xs) auto

text \<open>
  A saved user is what a later lookup of its id returns; lookups of other ids are not
  affected.
\<close>

lemma findUserById_saveUser:
  "findUserById i (saveUser u s) = (if i = user_id u then Some u else findUserById i s)"
proof (cases "\<exists>r \<in> set (users s). user_id r = user_id u")
  case True
  show ?thesis
  proof (cases "i = user_id u")
    case eq: True
    have "List.find (\<lambda>r. user_id r = user_id u) (map (\<lambda>r. if user_id r = user_id u then u else r) (users s))
          = map_option (\<lambda>_. u) (List.find (\<lambda>r. user_id r = user_id u) (users s))"
      by (rule find_map_keep) auto
    moreover from True have "List.find (\<lambda>r. user_id r = user_id u) (users s) \<noteq> None"
      by (auto simp: find_None_iff)
    ultimately show ?thesis using True eq
      by (auto simp: findUserById_def saveUser_def)
  next
    case neq: False
    have "List.find (\<lambda>r. user_id r = i) (map (\<lambda>r. if user_id r = user_id u then u else r) (users s))
          = map_option (\<lambda>r. r) (List.find (\<lambda>r. user_id r = i) (users s))"
      using neq by (intro find_map_keep) auto
    then show ?thesis using True neq
      by (simp add: findUserById_def saveUser_def option.map_ident)
  qed
next
  case False
  then have "List.find (\<lambda>r. user_id r = user_id u) (users s) = None"
    by (auto simp: find_None_iff)
  then show ?thesis using False
    by (auto simp: findUserById_def saveUser_def find_snoc split: option.splits)
qed

lemma teams_saveUser: "teams (saveUser u s) = teams s"
  by (simp add: saveUser_def)

lemma teams_fold_saveUser: "teams (fold (\<lambda>m. saveUser (f m)) ms s) = teams s"
  by (induction ms arbitrary: s) (simp_all add: teams_saveUser)

lemma findUserById_fold_other:
  "i \<notin> user_id ` f ` set ms \<Longrightarrow>
   findUserById i (fold (\<lambda>m. saveUser (f m)) ms s) = findUserById i s"
  by (induction ms arbitrary: s) (auto simp: findUserById_saveUser)

lemma findUserById_fold_saved:
  "i \<in> user_id ` f ` set ms \<Longrightarrow>
   \<exists>m \<in> set ms. user_id (f m) = i \<and> findUserById i (fold (\<lambda>m. saveUser (f m)) ms s) = Some (f m)"
proof (induction ms arbitrary: s)
  case Nil
  then show ?case by simp
next
  case (Cons a ms)
  show ?case
  proof (cases "i \<in> user_id ` f ` set ms")
    case True
    from Cons.IH[OF True, of "saveUser (f a) s"] show ?thesis by auto
  next
    case False
    with Cons.prems have "user_id (f a) = i" by auto
    with False show ?thesis
      by (auto simp: findUserById_fold_other findUserById_saveUser)
  qed
qed

lemma users_saveUser_cases:
  "r \<in> set (users (saveUser u s)) \<Longrightarrow> r = u \<or> (r \<in> set (users s) \<and> user_id r \<noteq> user_id u)"
  by (auto simp: saveUser_def split: if_splits)

lemma users_fold_cases:
  "r \<in> set (users (fold (\<lambda>m. saveUser (f m)) ms s)) \<Longrightarrow>
   r \<in> f ` set ms \<or> (r \<in> set (users s) \<and> user_id r \<notin> user_id ` f ` set ms)"
proof (induction ms arbitrary: s)
  case Nil
  then show ?case by simp
next
  case (Cons a ms)
  from Cons.IH[of "saveUser (f a) s"] Cons.prems
  show ?case by (auto dest: users_saveUser_cases)
qed

lemma findUserById_Some:
  "findUserById i s = Some u \<Longrightarrow> u \<in> set (users s) \<and> user_id u = i"
  by (auto simp: findUserById_def find_Some_iff)

lemma findUserById_exists:
  "i \<in> user_id ` set (users s) \<Longrightarrow> \<exists>u. findUserById i s = Some u"
  by (cases "findUserById i s") (auto simp: findUserById_def find_None_iff)

lemma findTeamById_Some:
  "findTeamById i s = Some t \<Longrightarrow> team_id t = i"
  by (auto simp: findTeamById_def find_Some_iff)

lemma findTeamByName_exists:
  "(\<exists>t \<in> set (teams s). team_name t = n) \<Longrightarrow> \<exists>t. findTeamByName n s = Some t"
  by (cases "findTeamByName n s") (auto simp: findTeamByName_def find_None_iff)

text \<open>
  The batch lookup returns one row per distinct id that exists. When user ids are unique
  in the table and the lookup returns as many rows as ids were asked for, the ids asked
  for are pairwise different and each of them was found.
\<close>

lemma findUsersByIds_exact:
  assumes d: "distinct (map user_id (users s))"
      and l: "length (findUsersByIds ids s) = length ids"
  shows "user_id ` set (findUsersByIds ids s) = set ids \<and> distinct ids"
proof -
  let ?xs = "map user_id (findUsersByIds ids s)"
  have dx: "distinct ?xs"
    using d unfolding findUsersByIds_def by (simp add: distinct_map_filter)
  have sub: "set ?xs \<subseteq> set ids"
    by (auto simp: findUsersByIds_def)
  have "card (set ?xs) = length ?xs"
    using dx by (rule distinct_card)
  then have "card (set ?xs) = length ids"
    using l by simp
  moreover have "card (set ?xs) \<le> card (set ids)"
    using sub by (simp add: card_mono)
  moreover have "card (set ids) \<le> length ids" by (rule card_length)
  ultimately have c: "card (set ?xs) = card (set ids)" and c2: "card (set ids) = length ids"
    by auto
  from sub c have "set ?xs = set ids" by (simp add: card_subset_eq)
  moreover from c2 have "distinct ids" by (simp add: card_distinct)
  ultimately show ?thesis by simp
qed

lemma members_count_differs:
  assumes dist: "distinct (map user_id (users s))"
      and bad: "(\<exists>i \<in> set ids. findUserById i s = None) \<or> \<not> distinct ids"
  shows "length (findUsersByIds ids s) \<noteq> length ids"
proof
  assume "length (findUsersByIds ids s) = length ids"
  from findUsersByIds_exact[OF dist this]
  have img: "user_id ` set (findUsersByIds ids s) = set ids" and d: "distinct ids" by simp_all
  from bad d obtain i where i: "i \<in> set ids" "findUserById i s = None" by blast
  from i(1) img have "i \<in> user_id ` set (users s)"
    by (auto simp: findUsersByIds_def)
  from findUserById_exists[OF this] i(2) show False by simp
qed

section \<open>createTeam\<close>

subsection \<open>The store after a successful call\<close>

text \<open>
  A call that does not throw passed the three checks, resolves to \<open>undefined\<close>, and
  leaves the store with the new team row, the administrator saved, and then every loaded
  member saved, in the order of the batch.
\<close>

lemma createTeam_Inr_D:
  assumes "createTeam env dto s = (Inr r, s')"
  shows "\<exists>a. findTeamByName (name dto) s = None
           \<and> findUserById (super_admin_user_id dto) s = Some a
           \<and> length (findUsersByIds (members dto) s) = length (members dto)
           \<and> r = None
           \<and> s' = fold (\<lambda>m. saveUser (m\<lparr>team := Some (next_team_id env), role := EXTERNAL_MEMBER\<rparr>))
                     (findUsersByIds (members dto) s)
                     (saveUser (a\<lparr>role := EXTERNAL_SUPER_ADMIN, team := Some (next_team_id env)\<rparr>)
                        (s\<lparr>teams := teams s @
                             [\<lparr>team_id = next_team_id env, team_name = name dto,
                               team_description = description dto\<rparr>]\<rparr>))"
proof (cases "members dto = []")
  case True
  then have "findUsersByIds (members dto) s = []"
    by (simp add: findUsersByIds_def)
  with assms True show ?thesis
    by (auto simp: createTeam_def createTeam_work_def runInTransaction_def saveTeam_def
          createGRPCErrorResponse_def Let_def
        split: option.splits if_splits prod.splits sum.splits)
next
  case False
  with assms show ?thesis
    by (auto simp: createTeam_def createTeam_work_def runInTransaction_def saveTeam_def
          createGRPCErrorResponse_def saveUsers_def fold_map comp_def Let_def
        split: option.splits if_splits prod.splits sum.splits)
qed

lemma createTeam_Inr_teams:
  assumes "createTeam env dto s = (Inr r, s')"
  shows "teams s' = teams s @ [\<lparr>team_id = next_team_id env, team_name = name dto,
                               team_description = description dto\<rparr>]"
proof -
  from createTeam_Inr_D[OF assms] obtain a where
    "s' = fold (\<lambda>m. saveUser (m\<lparr>team := Some (next_team_id env), role := EXTERNAL_MEMBER\<rparr>))
                     (findUsersByIds (members dto) s)
                     (saveUser (a\<lparr>role := EXTERNAL_SUPER_ADMIN, team := Some (next_team_id env)\<rparr>)
                        (s\<lparr>teams := teams s @
                             [\<lparr>team_id = next_team_id env, team_name = name dto,
                               team_description = description dto\<rparr>]\<rparr>))"
    by blast
  then show ?thesis by (simp add: teams_fold_saveUser teams_saveUser)
qed

lemma createTeam_members_saved:
  assumes succ: "createTeam env dto s = (Inr r, s')"
      and dist: "distinct (map user_id (users s))"
      and mem: "i \<in> set (members dto)"
  shows "\<exists>m. findUserById i s' = Some m \<and> user_id m = i \<and> role m = EXTERNAL_MEMBER
             \<and> team m = Some (next_team_id env)"
proof -
  let ?f = "\<lambda>m. m\<lparr>team := Some (next_team_id env), role := EXTERNAL_MEMBER\<rparr>"
  let ?ms = "findUsersByIds (members dto) s"
  from createTeam_Inr_D[OF succ] obtain a where
    len: "length ?ms = length (members dto)" and
    s': "s' = fold (\<lambda>m. saveUser (?f m)) ?ms
                (saveUser (a\<lparr>role := EXTERNAL_SUPER_ADMIN, team := Some (next_team_id env)\<rparr>)
                   (s\<lparr>teams := teams s @
                        [\<lparr>team_id = next_team_id env, team_name = name dto,
                          team_description = description dto\<rparr>]\<rparr>))"
    by blast
  from findUsersByIds_exact[OF dist len] have "user_id ` set ?ms = set (members dto)" by simp
  with mem have "i \<in> user_id ` set ?ms" by simp
  then have "i \<in> user_id ` ?f ` set ?ms" by (auto simp: image_iff)
  from findUserById_fold_saved[OF this] show ?thesis
    unfolding s' by fastforce
qed

lemma createTeam_admin_saved:
  assumes succ: "createTeam env dto s = (Inr r, s')"
      and notmem: "super_admin_user_id dto \<notin> set (members dto)"
  shows "\<exists>a. findUserById (super_admin_user_id dto) s' = Some a
             \<and> user_id a = super_admin_user_id dto \<and> role a = EXTERNAL_SUPER_ADMIN
             \<and> team a = Some (next_team_id env)"
proof -
  let ?f = "\<lambda>m. m\<lparr>team := Some (next_team_id env), role := EXTERNAL_MEMBER\<rparr>"
  let ?ms = "findUsersByIds (members dto) s"
  from createTeam_Inr_D[OF succ] obtain a where
    a: "findUserById (super_admin_user_id dto) s = Some a" and
    s': "s' = fold (\<lambda>m. saveUser (?f m)) ?ms
                (saveUser (a\<lparr>role := EXTERNAL_SUPER_ADMIN, team := Some (next_team_id env)\<rparr>)
                   (s\<lparr>teams := teams s @
                        [\<lparr>team_id = next_team_id env, team_name = name dto,
                          team_description = description dto\<rparr>]\<rparr>))"
    by blast
  from a have ida: "user_id a = super_admin_user_id dto"
    by (simp add: findUserById_Some)
  have "super_admin_user_id dto \<notin> user_id ` ?f ` set ?ms"
    using notmem by (auto simp: findUsersByIds_def)
  from findUserById_fold_other[OF this] show ?thesis
    unfolding s' using ida by (simp add: findUserById_saveUser)
qed

lemma createTeam_team_members:
  assumes succ: "createTeam env dto s = (Inr r, s')"
      and dist: "distinct (map user_id (users s))"
      and fresh_team: "next_team_id env \<notin> team_id ` set (teams s)"
      and fresh_ref: "\<forall>u \<in> set (users s). team u \<noteq> Some (next_team_id env)"
  shows "\<exists>ms. findOne (next_team_id env) s' =
                 Inr (\<lparr>team_id = next_team_id env, team_name = name dto,
                       team_description = description dto\<rparr>, ms)
              \<and> user_id ` set ms = insert (super_admin_user_id dto) (set (members dto))"
proof -
  let ?nid = "next_team_id env"
  let ?f = "\<lambda>m. m\<lparr>team := Some ?nid, role := EXTERNAL_MEMBER\<rparr>"
  let ?ms = "findUsersByIds (members dto) s"
  let ?t = "\<lparr>team_id = ?nid, team_name = name dto, team_description = description dto\<rparr>"
  from createTeam_Inr_D[OF succ] obtain a where
    a: "findUserById (super_admin_user_id dto) s = Some a" and
    len: "length ?ms = length (members dto)" and
    s': "s' = fold (\<lambda>m. saveUser (?f m)) ?ms
                (saveUser (a\<lparr>role := EXTERNAL_SUPER_ADMIN, team := Some ?nid\<rparr>)
                   (s\<lparr>teams := teams s @ [?t]\<rparr>))"
    by blast
  let ?a' = "a\<lparr>role := EXTERNAL_SUPER_ADMIN, team := Some ?nid\<rparr>"
  let ?s1 = "s\<lparr>teams := teams s @ [?t]\<rparr>"
  from a have ida: "user_id a = super_admin_user_id dto"
    by (simp add: findUserById_Some)
  from findUsersByIds_exact[OF dist len] have ids: "user_id ` set ?ms = set (members dto)" by simp
  have teams': "teams s' = teams s @ [?t]"
    unfolding s' by (simp add: teams_fold_saveUser teams_saveUser)
  have "List.find (\<lambda>t. team_id t = ?nid) (teams s) = None"
    using fresh_team by (force simp: find_None_iff)
  then have ft: "findTeamById ?nid s' = Some ?t"
    by (simp add: findTeamById_def teams' find_snoc)
  have "user_id ` set (membersOf ?nid s') = insert (super_admin_user_id dto) (set (members dto))"
  proof (intro equalityI subsetI)
    fix i assume "i \<in> user_id ` set (membersOf ?nid s')"
    then obtain u where u: "u \<in> set (users s')" "team u = Some ?nid" "user_id u = i"
      by (auto simp: membersOf_def)
    from u(1) have "u \<in> ?f ` set ?ms \<or> (u \<in> set (users (saveUser ?a' ?s1)) \<and> user_id u \<notin> user_id ` ?f ` set ?ms)"
      unfolding s' by (rule users_fold_cases)
    then show "i \<in> insert (super_admin_user_id dto) (set (members dto))"
    proof
      assume "u \<in> ?f ` set ?ms"
      then have "user_id u \<in> user_id ` set ?ms" by auto
      with ids u(3) show ?thesis by simp
    next
      assume "u \<in> set (users (saveUser ?a' ?s1)) \<and> user_id u \<notin> user_id ` ?f ` set ?ms"
      then have "u = ?a' \<or> (u \<in> set (users ?s1) \<and> user_id u \<noteq> user_id ?a')"
        by (auto dest: users_saveUser_cases)
      then show ?thesis
      proof
        assume "u = ?a'"
        with ida u(3) show ?thesis by simp
      next
        assume "u \<in> set (users ?s1) \<and> user_id u \<noteq> user_id ?a'"
        then have "u \<in> set (users s)" by simp
        with fresh_ref u(2) show ?thesis by blast
      qed
    qed
  next
    fix i assume i: "i \<in> insert (super_admin_user_id dto) (set (members dto))"
    have "\<exists>u. findUserById i s' = Some u \<and> user_id u = i \<and> team u = Some ?nid"
    proof (cases "i \<in> set (members dto)")
      case True
      from createTeam_members_saved[OF succ dist True] show ?thesis by blast
    next
      case False
      with i have "i = super_admin_user_id dto" by simp
      with False createTeam_admin_saved[OF succ] show ?thesis by blast
    qed
    then obtain u where "findUserById i s' = Some u" "user_id u = i" "team u = Some ?nid" by blast
    then have "u \<in> set (membersOf ?nid s')" "user_id u = i"
      by (auto simp: membersOf_def dest: findUserById_Some)
    then show "i \<in> user_id ` set (membersOf ?nid s')" by blast
  qed
  with ft show ?thesis
    by (simp add: findOne_def findTeamWithMembers_def)
qed

lemma createTeam_members_rejected:
  assumes free: "findTeamByName (name dto) s = None"
      and dist: "distinct (map user_id (users s))"
      and bad: "(\<exists>i \<in> set (members dto). findUserById i s = None) \<or> \<not> distinct (members dto)"
  shows "createTeam env dto s
           = (Inl (USER_NOT_FOUND,
                   if findUserById (super_admin_user_id dto) s = None
                   then msg_user_not_found else msg_members_not_found), s)"
proof -
  from bad have ne: "members dto \<noteq> []" by auto
  from members_count_differs[OF dist bad]
  have "length (findUsersByIds (members dto) s) \<noteq> length (members dto)" .
  with free ne show ?thesis
    by (simp add: createTeam_def createGRPCErrorResponse_def split: option.splits)
qed

lemma ex_createTeam: "createTeam ex_env ex_dto ex_store = (Inr None, ex_store_alpha)"
  by (simp add: svc_defs ex_defs Let_def)

subsection \<open>Failure inside the transaction\<close>

text \<open>
  When the three checks have passed, what createTeam does is what the callback does,
  with a thrown error wrapped by the catch block of lines 94 to 101. The callback throws
  the error of the first of its steps that fails.
\<close>

lemma createTeam_checks_passed:
  assumes "findTeamByName (name dto) s = None"
      and "findUserById (super_admin_user_id dto) s = Some a"
      and "length (findUsersByIds (members dto) s) = length (members dto)"
  shows "createTeam env dto s =
           (case runInTransaction (createTeam_work env dto a (findUsersByIds (members dto) s)) s of
              (Inl e, s') \<Rightarrow>
                (Inl (CREATE_TEAM_FAILURE, if e \<noteq> [] then e else msg_create_failed), s')
            | (Inr r, s') \<Rightarrow> (Inr None, s'))"
proof -
  have "(if length (members dto) > 0 then findUsersByIds (members dto) s else [])
          = findUsersByIds (members dto) s"
    by (simp add: findUsersByIds_def)
  with assms show ?thesis
    unfolding createTeam_def createGRPCErrorResponse_def by simp
qed

lemma createTeam_work_first_failure:
  assumes "tx_steps mems = before @ st # after"
      and "\<forall>p \<in> set before. failure env p = None"
      and "failure env st = Some e"
  shows "fst (createTeam_work env dto a mems s) = Inl e"
proof (cases "mems = []")
  case True
  with assms(1) have "(before = [] \<and> st = SAVE_TEAM)
      \<or> (before = [SAVE_TEAM] \<and> st = SAVE_ADMIN)
      \<or> (before = [SAVE_TEAM, SAVE_ADMIN] \<and> st = READ_BACK)"
    by (auto simp: tx_steps_def Cons_eq_append_conv)
  with assms(2,3) True show ?thesis
    by (auto simp: createTeam_work_def saveTeam_def Let_def)
next
  case False
  with assms(1) have "(before = [] \<and> st = SAVE_TEAM)
      \<or> (before = [SAVE_TEAM] \<and> st = SAVE_ADMIN)
      \<or> (before = [SAVE_TEAM, SAVE_ADMIN] \<and> st = SAVE_MEMBERS)
      \<or> (before = [SAVE_TEAM, SAVE_ADMIN, SAVE_MEMBERS] \<and> st = READ_BACK)"
    by (auto simp: tx_steps_def Cons_eq_append_conv)
  with assms(2,3) False show ?thesis
    by (auto simp: createTeam_work_def saveTeam_def Let_def)
qed

text \<open>
  Claim C1, as stated: whenever the three checks pass and a persistence step of the
  transaction fails, createTeam raises CREATE_TEAM_FAILURE carrying the message of the
  underlying cause, and no partial state (no team row, no role or team reference changed)
  is visible to later reads.

  In the example the checks pass, saving the team succeeds and saving the administrator
  throws an error with the empty message. The raised error carries the fixed text of
  \<open>msg_create_failed\<close>, not the cause's message: line 99 is
  \<open>(error as Error).message || ...\<close>, and an empty string is falsy. And the team row saved
  at line 66 is in the store after the call: findOne on its id failed before the call and
  returns the team after it.
\<close>

theorem createTeam_failure_message_counterexample:
  "findTeamByName (name ex_dto) ex_store = None
   \<and> findUserById (super_admin_user_id ex_dto) ex_store = Some ex_u1
   \<and> length (findUsersByIds (members ex_dto) ex_store) = length (members ex_dto)
   \<and> failure ex_env_fail SAVE_TEAM = None
   \<and> failure ex_env_fail SAVE_ADMIN = Some []
   \<and> createTeam ex_env_fail ex_dto ex_store
       = (Inl (CREATE_TEAM_FAILURE, msg_create_failed), ex_store\<lparr>teams := [ex_alpha]\<rparr>)
   \<and> msg_create_failed \<noteq> []
   \<and> findOne ''t1'' ex_store = Inl (TEAM_NOT_FOUND, msg_team_not_found)
   \<and> findOne ''t1'' (ex_store\<lparr>teams := [ex_alpha]\<rparr>) = Inr (ex_alpha, [])"
  by (simp add: svc_defs ex_defs ex_env_fail_def msg_create_failed_def Let_def)

text \<open>
  Claim C1, amended: whenever the three checks pass and a persistence step of the
  transaction fails, createTeam raises CREATE_TEAM_FAILURE, and the message it carries is
  that of the step that failed, the first failing one in the order of \<open>tx_steps\<close> (save
  the team, save the administrator, save the members when there are any, read the team
  back), when that message is not empty, and the fixed text of line 99 when it is empty.

  The statement says nothing of the store after the failure.
\<close>

theorem createTeam_transaction_failure:
  assumes "findTeamByName (name dto) s = None"
      and "findUserById (super_admin_user_id dto) s = Some a"
      and "length (findUsersByIds (members dto) s) = length (members dto)"
      and "tx_steps (findUsersByIds (members dto) s) = before @ st # after"
      and "\<forall>p \<in> set before. failure env p = None"
      and "failure env st = Some e"
  shows "fst (createTeam env dto s)
           = Inl (CREATE_TEAM_FAILURE, if e \<noteq> [] then e else msg_create_failed)"
proof -
  from createTeam_work_first_failure[OF assms(4-6)]
  have "fst (createTeam_work env dto a (findUsersByIds (members dto) s) s) = Inl e" .
  then obtain s' where
    "createTeam_work env dto a (findUsersByIds (members dto) s) s = (Inl e, s')"
    by (cases "createTeam_work env dto a (findUsersByIds (members dto) s) s") auto
  then show ?thesis
    unfolding createTeam_checks_passed[OF assms(1-3)] runInTransaction_def by simp
qed

theorem createTeam_transaction_failure_witness:
  "tx_steps (findUsersByIds (members ex_dto) ex_store)
     = [SAVE_TEAM, SAVE_ADMIN] @ SAVE_MEMBERS # [READ_BACK]
   \<and> failure ex_env_down SAVE_TEAM = None
   \<and> failure ex_env_down SAVE_ADMIN = None
   \<and> failure ex_env_down SAVE_MEMBERS = Some ''connection lost''
   \<and> failure ex_env_down READ_BACK = Some ''timeout''
   \<and> fst (createTeam ex_env_down ex_dto ex_store)
       = Inl (CREATE_TEAM_FAILURE, ''connection lost'')"
proof -
  have h1: "findTeamByName (name ex_dto) ex_store = None"
    by (simp add: findTeamByName_def ex_defs)
  have h2: "findUserById (super_admin_user_id ex_dto) ex_store = Some ex_u1"
    by (simp add: findUserById_def ex_defs)
  have h3: "length (findUsersByIds (members ex_dto) ex_store) = length (members ex_dto)"
    by (simp add: findUsersByIds_def ex_defs)
  have h4: "tx_steps (findUsersByIds (members ex_dto) ex_store)
     = [SAVE_TEAM, SAVE_ADMIN] @ SAVE_MEMBERS # [READ_BACK]"
    by (simp add: tx_steps_def findUsersByIds_def ex_defs)
  have h5: "\<forall>p \<in> set [SAVE_TEAM, SAVE_ADMIN]. failure ex_env_down p = None"
    by (simp add: ex_env_down_def)
  have h6: "failure ex_env_down SAVE_MEMBERS = Some ''connection lost''"
    by (simp add: ex_env_down_def)
  have h7: "failure ex_env_down READ_BACK = Some ''timeout''"
    by (simp add: ex_env_down_def)
  from createTeam_transaction_failure[OF h1 h2 h3 h4 h5 h6] h4 h5 h6 h7
  show ?thesis by simp
qed

text \<open>
  What the store holds after such a failure: the writes made before the failing step.
  When the failing step is not the first one, the new team row stays, whatever the
  comments of lines 58 and 95 say of a rollback.
\<close>

lemma teams_saveUsers: "teams (saveUsers us s) = teams s"
  unfolding saveUsers_def by (induction us arbitrary: s) (simp_all add: teams_saveUser)

lemma createTeam_work_keeps_team_row:
  assumes "tx_steps mems = before @ st # after"
      and "\<forall>p \<in> set before. failure env p = None"
      and "failure env st = Some e"
      and "st \<noteq> SAVE_TEAM"
  shows "teams (snd (createTeam_work env dto a mems s))
           = teams s @ [\<lparr>team_id = next_team_id env, team_name = name dto,
                          team_description = description dto\<rparr>]"
proof (cases "mems = []")
  case True
  with assms(1,4) have "(before = [SAVE_TEAM] \<and> st = SAVE_ADMIN)
      \<or> (before = [SAVE_TEAM, SAVE_ADMIN] \<and> st = READ_BACK)"
    by (auto simp: tx_steps_def Cons_eq_append_conv)
  with assms(2,3) True show ?thesis
    by (auto simp: createTeam_work_def saveTeam_def Let_def teams_saveUser)
next
  case False
  with assms(1,4) have "(before = [SAVE_TEAM] \<and> st = SAVE_ADMIN)
      \<or> (before = [SAVE_TEAM, SAVE_ADMIN] \<and> st = SAVE_MEMBERS)
      \<or> (before = [SAVE_TEAM, SAVE_ADMIN, SAVE_MEMBERS] \<and> st = READ_BACK)"
    by (auto simp: tx_steps_def Cons_eq_append_conv)
  with assms(2,3) False show ?thesis
    by (auto simp: createTeam_work_def saveTeam_def Let_def teams_saveUser teams_saveUsers)
qed

lemma createTeam_failure_keeps_team_row:
  assumes "findTeamByName (name dto) s = None"
      and "findUserById (super_admin_user_id dto) s = Some a"
      and "length (findUsersByIds (members dto) s) = length (members dto)"
      and "tx_steps (findUsersByIds (members dto) s) = before @ st # after"
      and "\<forall>p \<in> set before. failure env p = None"
      and "failure env st = Some e"
      and "st \<noteq> SAVE_TEAM"
  shows "teams (snd (createTeam env dto s))
           = teams s @ [\<lparr>team_id = next_team_id env, team_name = name dto,
                          team_description = description dto\<rparr>]"
proof -
  let ?w = "createTeam_work env dto a (findUsersByIds (members dto) s) s"
  from createTeam_work_first_failure[OF assms(4-6)] have "fst ?w = Inl e" .
  then have w: "?w = (Inl e, snd ?w)"
    by (cases ?w) auto
  have "snd (createTeam env dto s) = snd ?w"
    unfolding createTeam_checks_passed[OF assms(1-3)] runInTransaction_def
    by (subst w, subst w) simp
  with createTeam_work_keeps_team_row[OF assms(4-7)] show ?thesis by simp
qed

subsection \<open>The value returned\<close>

text \<open>
  Claim C2: a createTeam call whose checks pass and whose transaction succeeds returns
  the success value (success: true, message, data: the new team with its members).

  The callback builds exactly that value (lines 88 to 92) and the transaction hands it
  on, but line 59 awaits the transaction without returning it: createTeam itself
  resolves to \<open>undefined\<close>. The theorem evaluates both on the example request.
\<close>

theorem createTeam_drops_result:
  "runInTransaction (createTeam_work ex_env ex_dto ex_u1 [ex_u2, ex_u3]) ex_store
     = (Inr \<lparr>success = True, message = msg_created,
             data = Some (ex_alpha, users ex_store_alpha)\<rparr>, ex_store_alpha)
   \<and> createTeam ex_env ex_dto ex_store = (Inr None, ex_store_alpha)"
  by (simp add: svc_defs ex_defs Let_def)

subsection \<open>Roles and members after creation\<close>

text \<open>
  Claim C3: after a successful createTeam with name "Alpha", administrator u1 and member
  list [u2, u3], where u1 is not in the member list, u1 has role EXTERNAL_SUPER_ADMIN
  and its team reference is the new team's id; u2 and u3 have role EXTERNAL_MEMBER and
  the same team reference; and findOne on the new team's id returns the team with
  exactly the members u1, u2, u3.

  The store is a table with a primary key (user ids are unique), and the id the storage
  layer assigns is new: no team has it and no user refers to it. That the three users
  exist follows from the success of the call.
\<close>

theorem createTeam_alpha_postcondition:
  assumes dto: "name dto = ''Alpha''" "super_admin_user_id dto = u1" "members dto = [u2, u3]"
      and notmem: "u1 \<noteq> u2" "u1 \<noteq> u3"
      and dist: "distinct (map user_id (users s))"
      and fresh_team: "next_team_id env \<notin> team_id ` set (teams s)"
      and fresh_ref: "\<forall>u \<in> set (users s). team u \<noteq> Some (next_team_id env)"
      and succ: "createTeam env dto s = (Inr r, s')"
  shows "\<exists>a m2 m3 t ms.
           findUserById u1 s' = Some a \<and> role a = EXTERNAL_SUPER_ADMIN
             \<and> team a = Some (next_team_id env)
         \<and> findUserById u2 s' = Some m2 \<and> role m2 = EXTERNAL_MEMBER
             \<and> team m2 = Some (next_team_id env)
         \<and> findUserById u3 s' = Some m3 \<and> role m3 = EXTERNAL_MEMBER
             \<and> team m3 = Some (next_team_id env)
         \<and> findOne (next_team_id env) s' = Inr (t, ms)
         \<and> team_id t = next_team_id env \<and> team_name t = ''Alpha''
         \<and> user_id ` set ms = {u1, u2, u3}"
proof -
  have "super_admin_user_id dto \<notin> set (members dto)"
    using dto notmem by simp
  from createTeam_admin_saved[OF succ this] dto(2)
  obtain a where a: "findUserById u1 s' = Some a" "role a = EXTERNAL_SUPER_ADMIN"
      "team a = Some (next_team_id env)"
    by auto
  have "u2 \<in> set (members dto)" using dto(3) by simp
  from createTeam_members_saved[OF succ dist this]
  obtain m2 where m2: "findUserById u2 s' = Some m2" "role m2 = EXTERNAL_MEMBER"
      "team m2 = Some (next_team_id env)"
    by auto
  have "u3 \<in> set (members dto)" using dto(3) by simp
  from createTeam_members_saved[OF succ dist this]
  obtain m3 where m3: "findUserById u3 s' = Some m3" "role m3 = EXTERNAL_MEMBER"
      "team m3 = Some (next_team_id env)"
    by auto
  from createTeam_team_members[OF succ dist fresh_team fresh_ref] dto
  obtain ms where ms: "findOne (next_team_id env) s' =
                 Inr (\<lparr>team_id = next_team_id env, team_name = ''Alpha'',
                       team_description = description dto\<rparr>, ms)"
      "user_id ` set ms = {u1, u2, u3}"
    by auto
  from a m2 m3 ms show ?thesis by simp
qed

theorem createTeam_alpha_postcondition_witness:
  "createTeam ex_env ex_dto ex_store = (Inr None, ex_store_alpha)
   \<and> (\<exists>a m2 m3 t ms.
           findUserById ''u1'' ex_store_alpha = Some a \<and> role a = EXTERNAL_SUPER_ADMIN
             \<and> team a = Some ''t1''
         \<and> findUserById ''u2'' ex_store_alpha = Some m2 \<and> role m2 = EXTERNAL_MEMBER
             \<and> team m2 = Some ''t1''
         \<and> findUserById ''u3'' ex_store_alpha = Some m3 \<and> role m3 = EXTERNAL_MEMBER
             \<and> team m3 = Some ''t1''
         \<and> findOne ''t1'' ex_store_alpha = Inr (t, ms)
         \<and> team_id t = ''t1'' \<and> team_name t = ''Alpha''
         \<and> user_id ` set ms = {''u1'', ''u2'', ''u3''})"
proof -
  have succ: "createTeam ex_env ex_dto ex_store = (Inr None, ex_store_alpha)"
    by (simp add: svc_defs ex_defs Let_def)
  have dto: "name ex_dto = ''Alpha''" "super_admin_user_id ex_dto = ''u1''"
      "members ex_dto = [''u2'', ''u3'']"
    by (simp_all add: ex_defs)
  have notmem: "''u1'' \<noteq> ''u2''" "''u1'' \<noteq> ''u3''" by simp_all
  have dist: "distinct (map user_id (users ex_store))"
    by (simp add: ex_defs)
  have fresh_team: "next_team_id ex_env \<notin> team_id ` set (teams ex_store)"
    by (simp add: ex_defs)
  have fresh_ref: "\<forall>u \<in> set (users ex_store). team u \<noteq> Some (next_team_id ex_env)"
    by (simp add: ex_defs)
  have nid: "next_team_id ex_env = ''t1''" by (simp add: ex_defs)
  from createTeam_alpha_postcondition[OF dto notmem dist fresh_team fresh_ref succ] succ
  show ?thesis unfolding nid by simp
qed

text \<open>
  Claim C4: when the administrator's id also appears in the member list and the call
  succeeds, the administrator's final role is EXTERNAL_SUPER_ADMIN, the member role being
  assigned to the members with the administrator excluded.

  The code excludes nobody. The administrator's row is loaded a second time by the batch
  lookup, that copy gets role EXTERNAL_MEMBER in the loop of lines 75 to 78, and the batch
  save of line 79 comes after the save of line 71: the role that stays is EXTERNAL_MEMBER.
  The theorem evaluates the call for administrator u1 and members [u1, u2]; the lemma
  after it says the same of every such call.
\<close>

theorem createTeam_admin_in_members_example:
  "super_admin_user_id ex_dto_admin_member \<in> set (members ex_dto_admin_member)
   \<and> fst (createTeam ex_env ex_dto_admin_member ex_store) = Inr None
   \<and> findUserById ''u1'' (snd (createTeam ex_env ex_dto_admin_member ex_store))
       = Some \<lparr>user_id = ''u1'', role = EXTERNAL_MEMBER, team = Some ''t1''\<rparr>"
  by (simp add: svc_defs ex_defs ex_dto_admin_member_def Let_def)

lemma createTeam_admin_in_members:
  assumes "createTeam env dto s = (Inr r, s')"
      and "distinct (map user_id (users s))"
      and "super_admin_user_id dto \<in> set (members dto)"
  shows "\<exists>a. findUserById (super_admin_user_id dto) s' = Some a \<and> role a = EXTERNAL_MEMBER"
  using createTeam_members_saved[OF assms] by blast

subsection \<open>The checks before the transaction\<close>

text \<open>
  Claim C5: in every state in which some team already has the requested name (the same
  string, byte for byte), createTeam fails with TEAM_ALREADY_EXISTS and leaves the store
  as it was; in particular, after a successful createTeam every further createTeam with
  the same name fails so, whatever its other arguments.
\<close>

theorem createTeam_name_taken:
  "((\<exists>t \<in> set (teams s). team_name t = name dto) \<longrightarrow>
      createTeam env dto s = (Inl (TEAM_ALREADY_EXISTS, msg_team_exists (name dto)), s))
   \<and> (createTeam env1 dto1 s0 = (Inr r, s1) \<and> name dto2 = name dto1 \<longrightarrow>
      createTeam env2 dto2 s1 = (Inl (TEAM_ALREADY_EXISTS, msg_team_exists (name dto2)), s1))"
proof -
  have taken: "createTeam e d x = (Inl (TEAM_ALREADY_EXISTS, msg_team_exists (name d)), x)"
    if "\<exists>t \<in> set (teams x). team_name t = name d" for e d x
  proof -
    from findTeamByName_exists[OF that] obtain t where "findTeamByName (name d) x = Some t" ..
    then show ?thesis by (simp add: createTeam_def createGRPCErrorResponse_def)
  qed
  have "createTeam env2 dto2 s1 = (Inl (TEAM_ALREADY_EXISTS, msg_team_exists (name dto2)), s1)"
    if succ: "createTeam env1 dto1 s0 = (Inr r, s1)" and same: "name dto2 = name dto1"
  proof -
    from createTeam_Inr_teams[OF succ] same
    have "\<exists>t \<in> set (teams s1). team_name t = name dto2" by simp
    then show ?thesis by (rule taken)
  qed
  with taken show ?thesis by blast
qed

theorem createTeam_name_taken_witness:
  "(\<exists>t \<in> set (teams ex_store_alpha). team_name t = name ex_dto)
   \<and> createTeam ex_env ex_dto ex_store_alpha
       = (Inl (TEAM_ALREADY_EXISTS, msg_team_exists ''Alpha''), ex_store_alpha)
   \<and> createTeam ex_env ex_dto ex_store = (Inr None, ex_store_alpha)
   \<and> name ex_dto_again = name ex_dto
   \<and> createTeam ex_env2 ex_dto_again ex_store_alpha
       = (Inl (TEAM_ALREADY_EXISTS, msg_team_exists ''Alpha''), ex_store_alpha)"
proof -
  have h1: "\<exists>t \<in> set (teams ex_store_alpha). team_name t = name ex_dto"
    by (simp add: ex_defs)
  have h2: "createTeam ex_env ex_dto ex_store = (Inr None, ex_store_alpha)"
    by (simp add: svc_defs ex_defs Let_def)
  have h3: "name ex_dto_again = name ex_dto"
    by (simp add: ex_defs ex_dto_again_def)
  have n: "name ex_dto = ''Alpha''" "name ex_dto_again = ''Alpha''"
    by (simp_all add: ex_defs ex_dto_again_def)
  from createTeam_name_taken[where s = ex_store_alpha and dto = ex_dto and env = ex_env
      and ?env1.0 = ex_env and ?dto1.0 = ex_dto and ?s0.0 = ex_store and r = None
      and ?s1.0 = ex_store_alpha and ?dto2.0 = ex_dto_again and ?env2.0 = ex_env2] h1 h2 h3
  show ?thesis unfolding n by blast
qed

text \<open>
  Claim C6, as stated: every createTeam call whose administrator id, or one of whose
  member ids, does not resolve to a user fails with USER_NOT_FOUND and changes nothing.

  The name check comes first (lines 22 to 31): when the requested name is taken the call
  fails with TEAM_ALREADY_EXISTS, whoever the administrator is. In the example team Alpha
  exists and the administrator id resolves to nobody.
\<close>

theorem createTeam_missing_admin_counterexample:
  "findUserById (super_admin_user_id ex_dto_ghost_admin) ex_store_alpha = None
   \<and> createTeam ex_env2 ex_dto_ghost_admin ex_store_alpha
       = (Inl (TEAM_ALREADY_EXISTS, msg_team_exists ''Alpha''), ex_store_alpha)
   \<and> TEAM_ALREADY_EXISTS \<noteq> USER_NOT_FOUND"
  by (simp add: svc_defs ex_defs ex_env2_def ex_dto_ghost_admin_def)

text \<open>
  Claim C6, amended: when no team has the requested name, every createTeam call whose
  administrator id, or one of whose member ids, does not resolve to a user fails with
  USER_NOT_FOUND and leaves the store as it was: no team row, no change to any user. The
  message is that of line 39 when the administrator is missing and that of line 52
  otherwise. User ids are unique in the table.
\<close>

theorem createTeam_unresolved_user:
  assumes free: "findTeamByName (name dto) s = None"
      and dist: "distinct (map user_id (users s))"
      and bad: "findUserById (super_admin_user_id dto) s = None
                \<or> (\<exists>i \<in> set (members dto). findUserById i s = None)"
  shows "createTeam env dto s
           = (Inl (USER_NOT_FOUND,
                   if findUserById (super_admin_user_id dto) s = None
                   then msg_user_not_found else msg_members_not_found), s)"
proof (cases "findUserById (super_admin_user_id dto) s")
  case None
  with free show ?thesis
    by (simp add: createTeam_def createGRPCErrorResponse_def)
next
  case (Some a)
  with bad have "(\<exists>i \<in> set (members dto). findUserById i s = None) \<or> \<not> distinct (members dto)"
    by simp
  from createTeam_members_rejected[OF free dist this] show ?thesis .
qed

theorem createTeam_unresolved_user_witness:
  "findUserById ''ghost'' ex_store = None
   \<and> createTeam ex_env ex_dto_ghost_member ex_store
       = (Inl (USER_NOT_FOUND, msg_members_not_found), ex_store)
   \<and> createTeam ex_env ex_dto_ghost_admin_beta ex_store
       = (Inl (USER_NOT_FOUND, msg_user_not_found), ex_store)"
proof -
  have free: "findTeamByName (name ex_dto_ghost_member) ex_store = None"
      "findTeamByName (name ex_dto_ghost_admin_beta) ex_store = None"
    by (simp_all add: findTeamByName_def ex_defs ex_dto_ghost_member_def ex_dto_ghost_admin_beta_def)
  have dist: "distinct (map user_id (users ex_store))"
    by (simp add: ex_defs)
  have ghost: "findUserById ''ghost'' ex_store = None"
    by (simp add: findUserById_def ex_defs)
  have admin: "findUserById (super_admin_user_id ex_dto_ghost_member) ex_store = Some ex_u1"
    by (simp add: findUserById_def ex_defs ex_dto_ghost_member_def)
  have bad1: "findUserById (super_admin_user_id ex_dto_ghost_member) ex_store = None
              \<or> (\<exists>i \<in> set (members ex_dto_ghost_member). findUserById i ex_store = None)"
    using ghost by (simp add: ex_dto_ghost_member_def)
  have bad2: "findUserById (super_admin_user_id ex_dto_ghost_admin_beta) ex_store = None
              \<or> (\<exists>i \<in> set (members ex_dto_ghost_admin_beta). findUserById i ex_store = None)"
    using ghost by (simp add: ex_dto_ghost_admin_beta_def)
  have admin2: "findUserById (super_admin_user_id ex_dto_ghost_admin_beta) ex_store = None"
    using ghost by (simp add: ex_dto_ghost_admin_beta_def)
  from createTeam_unresolved_user[OF free(1) dist bad1, of ex_env]
       createTeam_unresolved_user[OF free(2) dist bad2, of ex_env] ghost admin admin2
  show ?thesis by simp
qed

text \<open>
  Claim C10, as stated: every createTeam call whose member list repeats an id fails
  with USER_NOT_FOUND (members), even when every id of the list resolves.

  Here too the name check comes first: in the example team Alpha exists, the
  administrator and the repeated member exist, and the call fails with
  TEAM_ALREADY_EXISTS.
\<close>

theorem createTeam_duplicate_members_counterexample:
  "\<not> distinct (members ex_dto_dup)
   \<and> findUserById ''u1'' ex_store_alpha \<noteq> None
   \<and> findUserById ''u2'' ex_store_alpha \<noteq> None
   \<and> createTeam ex_env2 ex_dto_dup ex_store_alpha
       = (Inl (TEAM_ALREADY_EXISTS, msg_team_exists ''Alpha''), ex_store_alpha)
   \<and> TEAM_ALREADY_EXISTS \<noteq> USER_NOT_FOUND"
  by (simp add: svc_defs ex_defs ex_env2_def ex_dto_dup_def)

text \<open>
  Claim C10, amended: when no team has the requested name, every createTeam call whose
  member list repeats an id fails with USER_NOT_FOUND and leaves the store as it was, also
  when every id of the list resolves: the lookup returns one row per distinct id, fewer
  than the list has entries. The message is the members' one (line 52) when the
  administrator exists, and the administrator's (line 39) when it does not. User ids are
  unique in the table.
\<close>

theorem createTeam_duplicate_members:
  assumes free: "findTeamByName (name dto) s = None"
      and dist: "distinct (map user_id (users s))"
      and dup: "\<not> distinct (members dto)"
  shows "createTeam env dto s
           = (Inl (USER_NOT_FOUND,
                   if findUserById (super_admin_user_id dto) s = None
                   then msg_user_not_found else msg_members_not_found), s)"
proof -
  from dup have "(\<exists>i \<in> set (members dto). findUserById i s = None) \<or> \<not> distinct (members dto)"
    by simp
  from createTeam_members_rejected[OF free dist this] show ?thesis .
qed

theorem createTeam_duplicate_members_witness:
  "findUserById ''u1'' ex_store_alpha \<noteq> None
   \<and> findUserById ''u2'' ex_store_alpha \<noteq> None
   \<and> findUserById ''u3'' ex_store_alpha \<noteq> None
   \<and> createTeam ex_env2 ex_dto_dup_beta ex_store_alpha
       = (Inl (USER_NOT_FOUND, msg_members_not_found), ex_store_alpha)"
proof -
  have free: "findTeamByName (name ex_dto_dup_beta) ex_store_alpha = None"
    by (simp add: findTeamByName_def ex_defs ex_dto_dup_beta_def)
  have dist: "distinct (map user_id (users ex_store_alpha))"
    by (simp add: ex_defs)
  have dup: "\<not> distinct (members ex_dto_dup_beta)"
    by (simp add: ex_dto_dup_beta_def)
  have ex: "findUserById ''u1'' ex_store_alpha \<noteq> None" "findUserById ''u2'' ex_store_alpha \<noteq> None"
      "findUserById ''u3'' ex_store_alpha \<noteq> None"
    by (simp_all add: findUserById_def ex_defs)
  have "super_admin_user_id ex_dto_dup_beta = ''u1''" by (simp add: ex_dto_dup_beta_def)
  with createTeam_duplicate_members[OF free dist dup, of ex_env2] ex
  show ?thesis by simp
qed

section \<open>updateTeam\<close>

text \<open>
  Claim C7, as stated: updateTeam fails with TEAM_NOT_FOUND when no team has the given
  id; and when a new name is supplied that differs from the team's current name and is
  the name of another team, it fails with TEAM_NAME_EXISTS and the stored name stays.

  The guard of line 135 is \<open>dto.name && dto.name !== team.name\<close>, and an empty string is
  falsy: a supplied empty name is never checked. In the example team t1 is named Alpha,
  team t2 has the empty name, and renaming t1 to the empty name does not fail.
\<close>

theorem updateTeam_empty_name_counterexample:
  "findTeamById (upd_id ex_upd_empty) ex_store_teams = Some ex_alpha
   \<and> upd_name ex_upd_empty = Some []
   \<and> [] \<noteq> team_name ex_alpha
   \<and> findTeamByName [] ex_store_teams = Some ex_unnamed
   \<and> ex_unnamed \<noteq> ex_alpha
   \<and> updateTeam ex_upd_empty ex_store_teams = (Inr (), ex_store_teams)"
  by (simp add: svc_defs ex_defs ex_upd_defs)

text \<open>
  Claim C7, amended: updateTeam fails with TEAM_NOT_FOUND when no team has the given id;
  and when a non-empty new name is supplied that differs from the team's current name
  and is the name of an existing team, it fails with TEAM_NAME_EXISTS, the store is
  unchanged and the team still has its name.
\<close>

theorem updateTeam_failures:
  "(findTeamById (upd_id dto) s = None \<longrightarrow>
      updateTeam dto s = (Inl (TEAM_NOT_FOUND, msg_team_not_found), s))
   \<and> (findTeamById (upd_id dto) s = Some t \<and> upd_name dto = Some n \<and> n \<noteq> []
        \<and> n \<noteq> team_name t \<and> (\<exists>t' \<in> set (teams s). team_name t' = n) \<longrightarrow>
      updateTeam dto s = (Inl (TEAM_NAME_EXISTS, msg_name_exists), s)
      \<and> findTeamById (upd_id dto) (snd (updateTeam dto s)) = Some t)"
proof (intro conjI impI)
  assume "findTeamById (upd_id dto) s = None"
  then show "updateTeam dto s = (Inl (TEAM_NOT_FOUND, msg_team_not_found), s)"
    by (simp add: updateTeam_def createGRPCErrorResponse_def)
next
  assume h: "findTeamById (upd_id dto) s = Some t \<and> upd_name dto = Some n \<and> n \<noteq> []
        \<and> n \<noteq> team_name t \<and> (\<exists>t' \<in> set (teams s). team_name t' = n)"
  then obtain t' where "findTeamByName n s = Some t'"
    using findTeamByName_exists by blast
  with h show r: "updateTeam dto s = (Inl (TEAM_NAME_EXISTS, msg_name_exists), s)"
    by (simp add: updateTeam_def createGRPCErrorResponse_def)
  from h show "findTeamById (upd_id dto) (snd (updateTeam dto s)) = Some t"
    unfolding r by simp
qed

theorem updateTeam_failures_witness:
  "findTeamById (upd_id ex_upd_unknown) ex_store_teams = None
   \<and> updateTeam ex_upd_unknown ex_store_teams
       = (Inl (TEAM_NOT_FOUND, msg_team_not_found), ex_store_teams)
   \<and> findTeamById (upd_id ex_upd_beta) ex_store_teams = Some ex_alpha
   \<and> upd_name ex_upd_beta = Some ''Beta''
   \<and> updateTeam ex_upd_beta ex_store_teams
       = (Inl (TEAM_NAME_EXISTS, msg_name_exists), ex_store_teams)
   \<and> findTeamById (upd_id ex_upd_beta) (snd (updateTeam ex_upd_beta ex_store_teams)) = Some ex_alpha"
proof -
  have h1: "findTeamById (upd_id ex_upd_unknown) ex_store_teams = None"
    by (simp add: findTeamById_def ex_defs ex_upd_defs)
  have h2: "findTeamById (upd_id ex_upd_beta) ex_store_teams = Some ex_alpha
        \<and> upd_name ex_upd_beta = Some ''Beta'' \<and> ''Beta'' \<noteq> []
        \<and> ''Beta'' \<noteq> team_name ex_alpha
        \<and> (\<exists>t' \<in> set (teams ex_store_teams). team_name t' = ''Beta'')"
    by (simp add: findTeamById_def ex_defs ex_upd_defs)
  from updateTeam_failures[where dto = ex_upd_unknown and s = ex_store_teams] h1
  have a: "updateTeam ex_upd_unknown ex_store_teams
       = (Inl (TEAM_NOT_FOUND, msg_team_not_found), ex_store_teams)"
    by blast
  from updateTeam_failures[where dto = ex_upd_beta and s = ex_store_teams and t = ex_alpha
      and n = "''Beta''"] h2
  have b: "updateTeam ex_upd_beta ex_store_teams
       = (Inl (TEAM_NAME_EXISTS, msg_name_exists), ex_store_teams)
      \<and> findTeamById (upd_id ex_upd_beta) (snd (updateTeam ex_upd_beta ex_store_teams)) = Some ex_alpha"
    by blast
  from h1 h2 a b show ?thesis by simp
qed

text \<open>
  Claim C8: an updateTeam call that does not fail returns nothing and persists nothing:
  the changes of lines 148 and 149 are made to the fetched object only, and the stored
  teams and users after the call are those before it.
\<close>

theorem updateTeam_not_persisted:
  "updateTeam dto s = (Inr r, s') \<Longrightarrow> r = () \<and> s' = s \<and> findAll s' = findAll s"
  by (auto simp: updateTeam_def split: option.splits if_splits)

theorem updateTeam_not_persisted_witness:
  "updateTeam ex_upd_gamma ex_store_teams = (Inr (), ex_store_teams)
   \<and> findTeamById ''t1'' ex_store_teams = Some ex_alpha
   \<and> updateTeam_aggregate ex_upd_gamma ex_alpha
       = \<lparr>team_id = ''t1'', team_name = ''Gamma'', team_description = Some ''renamed''\<rparr>
   \<and> findAll ex_store_teams = findAll ex_store_teams"
proof -
  have r: "updateTeam ex_upd_gamma ex_store_teams = (Inr (), ex_store_teams)"
    by (simp add: svc_defs ex_defs ex_upd_defs)
  have a: "updateTeam_aggregate ex_upd_gamma ex_alpha
       = \<lparr>team_id = ''t1'', team_name = ''Gamma'', team_description = Some ''renamed''\<rparr>"
    by (simp add: updateTeam_aggregate_def ex_defs ex_upd_defs)
  have f: "findTeamById ''t1'' ex_store_teams = Some ex_alpha"
    by (simp add: findTeamById_def ex_defs ex_upd_defs)
  from updateTeam_not_persisted[OF r] r a f show ?thesis by simp
qed

section \<open>deleteTeam\<close>

text \<open>
  Claim C9: for an existing team, deleteTeam saves each of its members with the team
  reference cleared, one after the other, then removes the team row: afterwards every
  former member's team reference is null, no user refers to the team, the other team rows
  are untouched and findOne on the id fails with TEAM_NOT_FOUND. When no team has the id,
  deleteTeam fails with the TEAM_NOT_FOUND error of findOne and changes nothing.
\<close>

theorem deleteTeam_detaches_then_removes:
  "(findTeamById i s = Some t \<longrightarrow>
      (\<exists>s'. deleteTeam i s = (Inr (), s')
         \<and> (\<forall>m \<in> set (membersOf i s).
               \<exists>u. findUserById (user_id m) s' = Some u \<and> team u = None)
         \<and> membersOf i s' = []
         \<and> teams s' = filter (\<lambda>r. team_id r \<noteq> i) (teams s)
         \<and> findOne i s' = Inl (TEAM_NOT_FOUND, msg_team_not_found)))
   \<and> (findTeamById i s = None \<longrightarrow>
      deleteTeam i s = (Inl (TEAM_NOT_FOUND, msg_team_not_found), s))"
proof (intro conjI impI)
  assume "findTeamById i s = None"
  then show "deleteTeam i s = (Inl (TEAM_NOT_FOUND, msg_team_not_found), s)"
    by (simp add: deleteTeam_def findOne_def findTeamWithMembers_def createGRPCErrorResponse_def)
next
  assume t: "findTeamById i s = Some t"
  then have idt: "team_id t = i" by (rule findTeamById_Some)
  let ?f = "\<lambda>member. member\<lparr>team := None\<rparr>"
  let ?s1 = "fold (\<lambda>member. saveUser (?f member)) (membersOf i s) s"
  let ?s' = "removeTeam t ?s1"
  have del: "deleteTeam i s = (Inr (), ?s')"
    using t idt by (simp add: deleteTeam_def findOne_def findTeamWithMembers_def)
  have users': "users ?s' = users ?s1" by (simp add: removeTeam_def)
  have fu: "findUserById j ?s' = findUserById j ?s1" for j
    by (simp add: findUserById_def users')
  have detached: "\<forall>m \<in> set (membersOf i s). \<exists>u. findUserById (user_id m) ?s' = Some u \<and> team u = None"
  proof
    fix m assume "m \<in> set (membersOf i s)"
    then have "user_id m \<in> user_id ` ?f ` set (membersOf i s)" by (auto simp: image_iff)
    from findUserById_fold_saved[OF this, of s] show "\<exists>u. findUserById (user_id m) ?s' = Some u \<and> team u = None"
      unfolding fu by auto
  qed
  have nomem: "membersOf i ?s' = []"
  proof -
    have "team u \<noteq> Some i" if "u \<in> set (users ?s1)" for u
    proof -
      from users_fold_cases[OF that]
      have "u \<in> ?f ` set (membersOf i s)
            \<or> (u \<in> set (users s) \<and> user_id u \<notin> user_id ` ?f ` set (membersOf i s))" .
      then show ?thesis
      proof
        assume "u \<in> ?f ` set (membersOf i s)"
        then show ?thesis by auto
      next
        assume h: "u \<in> set (users s) \<and> user_id u \<notin> user_id ` ?f ` set (membersOf i s)"
        show ?thesis
        proof
          assume "team u = Some i"
          with h have "u \<in> set (membersOf i s)" by (simp add: membersOf_def)
          then have "user_id u \<in> user_id ` ?f ` set (membersOf i s)" by (auto simp: image_iff)
          with h show False by simp
        qed
      qed
    qed
    then have "filter (\<lambda>u. team u = Some i) (users ?s1) = []"
      by (simp add: filter_empty_conv)
    then show ?thesis
      by (simp add: membersOf_def[of i ?s'] users')
  qed
  have teams': "teams ?s' = filter (\<lambda>r. team_id r \<noteq> i) (teams s)"
    using idt by (simp add: removeTeam_def teams_fold_saveUser)
  have "findTeamById i ?s' = None"
    unfolding findTeamById_def teams' by (simp add: find_None_iff)
  then have gone: "findOne i ?s' = Inl (TEAM_NOT_FOUND, msg_team_not_found)"
    by (simp add: findOne_def findTeamWithMembers_def createGRPCErrorResponse_def)
  from del detached nomem teams' gone
  show "\<exists>s'. deleteTeam i s = (Inr (), s')
         \<and> (\<forall>m \<in> set (membersOf i s).
               \<exists>u. findUserById (user_id m) s' = Some u \<and> team u = None)
         \<and> membersOf i s' = []
         \<and> teams s' = filter (\<lambda>r. team_id r \<noteq> i) (teams s)
         \<and> findOne i s' = Inl (TEAM_NOT_FOUND, msg_team_not_found)"
    by (intro exI[of _ ?s'] conjI)
qed

theorem deleteTeam_detaches_then_removes_witness:
  "findTeamById ''t1'' ex_store_alpha = Some ex_alpha
   \<and> membersOf ''t1'' ex_store_alpha = users ex_store_alpha
   \<and> deleteTeam ''t1'' ex_store_alpha = (Inr (), ex_store_detached)
   \<and> (\<exists>u. findUserById ''u1'' ex_store_detached = Some u \<and> team u = None)
   \<and> (\<exists>u. findUserById ''u2'' ex_store_detached = Some u \<and> team u = None)
   \<and> (\<exists>u. findUserById ''u3'' ex_store_detached = Some u \<and> team u = None)
   \<and> membersOf ''t1'' ex_store_detached = []
   \<and> findOne ''t1'' ex_store_detached = Inl (TEAM_NOT_FOUND, msg_team_not_found)
   \<and> findTeamById ''t9'' ex_store_alpha = None
   \<and> deleteTeam ''t9'' ex_store_alpha = (Inl (TEAM_NOT_FOUND, msg_team_not_found), ex_store_alpha)"
proof -
  have h1: "findTeamById ''t1'' ex_store_alpha = Some ex_alpha"
    by (simp add: findTeamById_def ex_defs)
  have h2: "findTeamById ''t9'' ex_store_alpha = None"
    by (simp add: findTeamById_def ex_defs)
  have m: "membersOf ''t1'' ex_store_alpha = users ex_store_alpha"
    by (simp add: membersOf_def ex_defs)
  have d: "deleteTeam ''t1'' ex_store_alpha = (Inr (), ex_store_detached)"
    by (simp add: svc_defs ex_defs ex_store_detached_def)
  from deleteTeam_detaches_then_removes[where i = "''t1''" and s = ex_store_alpha and t = ex_alpha]
    h1
  obtain s' where s': "deleteTeam ''t1'' ex_store_alpha = (Inr (), s')"
      "\<forall>m \<in> set (membersOf ''t1'' ex_store_alpha).
               \<exists>u. findUserById (user_id m) s' = Some u \<and> team u = None"
      "membersOf ''t1'' s' = []"
      "findOne ''t1'' s' = Inl (TEAM_NOT_FOUND, msg_team_not_found)"
    by blast
  from s'(1) d have eq: "s' = ex_store_detached" by simp
  from deleteTeam_detaches_then_removes[where i = "''t9''" and s = ex_store_alpha] h2
  have b: "deleteTeam ''t9'' ex_store_alpha = (Inl (TEAM_NOT_FOUND, msg_team_not_found), ex_store_alpha)"
    by blast
  from s'(2) have "\<forall>m \<in> set (users ex_store_alpha).
               \<exists>u. findUserById (user_id m) ex_store_detached = Some u \<and> team u = None"
    unfolding eq m .
  then have u: "\<exists>u. findUserById ''u1'' ex_store_detached = Some u \<and> team u = None"
      "\<exists>u. findUserById ''u2'' ex_store_detached = Some u \<and> team u = None"
      "\<exists>u. findUserById ''u3'' ex_store_detached = Some u \<and> team u = None"
    by (simp_all add: ex_store_alpha_def)
  from h1 h2 m d u s'(3,4) b show ?thesis unfolding eq by simp
qed

end
